theory Spec2Isabelle
  imports Main "HOL-Library.Word" "HOL-Library.Sublist"
begin

section \<open>Values of the JavaScript runtime\<close>

text \<open>
  A JavaScript string is a sequence of UTF-16 code units; \<open>s.length\<close> counts code units.
  Every list of 16-bit words is a string the program can receive.
\<close>

type_synonym js_string = "16 word list"

text \<open>The code units of an ASCII (Latin-1) literal of the source.\<close>

definition str :: "string \<Rightarrow> js_string" where
  "str s = map of_char s"

text \<open>
  \<open>new Error(message)\<close>. The outcome of running a function of the program: it returns a
  value, it throws (an async function rejects its promise), or it calls
  \<open>process.exit(code)\<close>, after which nothing of the program runs.
\<close>

datatype Error = Error js_string

datatype 'a proc = Returns 'a | Throws Error | Exits int

text \<open>neverthrow's \<open>Result<T, E>\<close>: \<open>ok(v)\<close> or \<open>err(e)\<close>.\<close>

datatype ('a, 'e) Result = Ok 'a | Err 'e

fun isErr :: "('a, 'e) Result \<Rightarrow> bool" where
  "isErr (Err e) = True"
| "isErr (Ok v) = False"

fun isOk :: "('a, 'e) Result \<Rightarrow> bool" where
  "isOk (Ok v) = True"
| "isOk (Err e) = False"

section \<open>constants.ts\<close>

text \<open>
  \<open>LANGUAGE = { EN: 'en', JA: 'ja', ES: 'es' } as const\<close>; the type \<open>Language\<close> is the union
  of the three values. \<open>LANGUAGE_values\<close> is \<open>Object.values(LANGUAGE)\<close>, in insertion order.
\<close>

datatype Language = EN | JA | ES

fun Language_value :: "Language \<Rightarrow> js_string" where
  "Language_value EN = str ''en''"
| "Language_value JA = str ''ja''"
| "Language_value ES = str ''es''"

definition LANGUAGE_keys :: "Language list" where
  "LANGUAGE_keys = [EN, JA, ES]"

definition LANGUAGE_values :: "js_string list" where
  "LANGUAGE_values = map Language_value LANGUAGE_keys"

definition APP_NAME :: js_string where
  "APP_NAME = str ''hello-cli''"

section \<open>logic.ts\<close>

subsection \<open>The zod schemas\<close>

text \<open>
  \<open>schema.safeParse(x)\<close> returns \<open>{ success: true, data }\<close> or \<open>{ success: false, error }\<close>,
  where the error is a \<open>ZodError\<close> holding the issues; an issue is kept as its message.
\<close>

datatype ZodError = ZodError "js_string list"

datatype 'a SafeParse = ParseSuccess 'a | ParseFailure ZodError

text \<open>
  \<open>LanguageSchema = z.nativeEnum(LANGUAGE)\<close>: the input is accepted when it is one of the
  values of the object, compared with strict equality. The program never reads the issue
  of a failure of this schema.
\<close>

definition LanguageSchema_safeParse :: "js_string \<Rightarrow> Language SafeParse" where
  "LanguageSchema_safeParse s =
     (case find (\<lambda>l. Language_value l = s) LANGUAGE_keys of
        Some l \<Rightarrow> ParseSuccess l
      | None \<Rightarrow> ParseFailure (ZodError [str ''Invalid enum value'']))"

text \<open>\<open>NameSchema = z.string().min(1, 'Name cannot be empty')\<close>.\<close>

definition NameSchema_safeParse :: "js_string \<Rightarrow> js_string SafeParse" where
  "NameSchema_safeParse name =
     (if length name < 1 then ParseFailure (ZodError [str ''Name cannot be empty''])
      else ParseSuccess name)"

subsection \<open>Dates\<close>

text \<open>
  A \<open>Date\<close> holds a time value: milliseconds since the epoch, or NaN (an invalid date).
  \<open>getHours\<close> is the hour of the local time, \<open>floor (local / msPerHour) mod 24\<close>, and NaN
  for an invalid date. The local time zone adjustment \<open>tza\<close> (milliseconds to add at a
  given time value) belongs to the host, so it is a parameter.
\<close>

datatype Date = Date int | InvalidDate

definition msPerHour :: int where
  "msPerHour = 3600000"

fun getHours :: "(int \<Rightarrow> int) \<Rightarrow> Date \<Rightarrow> int option" where
  "getHours tza (Date t) = Some (((t + tza t) div msPerHour) mod 24)"
| "getHours tza InvalidDate = None"

text \<open>The comparison \<open>h < n\<close> of a number that may be NaN: false on NaN.\<close>

fun num_lt :: "int option \<Rightarrow> int \<Rightarrow> bool" where
  "num_lt (Some h) n = (h < n)"
| "num_lt None n = False"

subsection \<open>getTimeOfDay\<close>

datatype TimeOfDay = morning | day | evening

text \<open>
  The chain \<open>match(hour).when(h < 12, morning).when(h < 18, day).otherwise(evening)\<close>:
  the first predicate that holds decides.
\<close>

definition classifyHour :: "int option \<Rightarrow> TimeOfDay" where
  "classifyHour hour =
     (if num_lt hour 12 then morning
      else if num_lt hour 18 then day
      else evening)"

definition getTimeOfDay :: "(int \<Rightarrow> int) \<Rightarrow> Date \<Rightarrow> TimeOfDay" where
  "getTimeOfDay tza date = classifyHour (getHours tza date)"

subsection \<open>createGreeting\<close>

text \<open>
  The branches of \<open>match([lang, timeOfDay])\<close>, in the order of the source, each with its
  template applied to the name.
\<close>

definition san :: js_string where
  "san = [0x3055, 0x3093, 0xFF01]"

definition greetingBranches :: "((Language \<times> TimeOfDay) \<times> (js_string \<Rightarrow> js_string)) list" where
  "greetingBranches =
     [((JA, morning), \<lambda>name.
         [0x304A, 0x306F, 0x3088, 0x3046, 0x3054, 0x3056, 0x3044, 0x307E, 0x3059, 0x3001]
           @ name @ san),
      ((JA, day), \<lambda>name. [0x3053, 0x3093, 0x306B, 0x3061, 0x306F, 0x3001] @ name @ san),
      ((JA, evening), \<lambda>name. [0x3053, 0x3093, 0x3070, 0x3093, 0x306F, 0x3001] @ name @ san),
      ((EN, morning), \<lambda>name. str ''Good morning, '' @ name @ str ''!''),
      ((EN, day), \<lambda>name. str ''Hello, '' @ name @ str ''!''),
      ((EN, evening), \<lambda>name. str ''Good evening, '' @ name @ str ''!''),
      ((ES, morning), \<lambda>name.
         [0xA1] @ str ''Buenos d'' @ [0xED] @ str ''as, '' @ name @ str ''!''),
      ((ES, day), \<lambda>name. [0xA1] @ str ''Hola, '' @ name @ str ''!''),
      ((ES, evening), \<lambda>name. [0xA1] @ str ''Buenas noches, '' @ name @ str ''!'')]"

text \<open>
  \<open>.with(pattern, handler)\<close> ... \<open>.exhaustive()\<close>: the handler of the first pattern equal to
  the input runs; when no pattern matches, \<open>exhaustive\<close> throws.
\<close>

fun match_exhaustive :: "('k \<times> 'h) list \<Rightarrow> 'k \<Rightarrow> 'h option" where
  "match_exhaustive [] v = None"
| "match_exhaustive ((p, h) # rest) v = (if p = v then Some h else match_exhaustive rest v)"

text \<open>
  \<open>zmsg\<close> is the \<open>message\<close> getter of \<open>ZodError\<close> (the library renders the issues as text).
\<close>

definition createGreeting ::
  "(ZodError \<Rightarrow> js_string) \<Rightarrow> (int \<Rightarrow> int) \<Rightarrow> js_string \<Rightarrow> Language \<Rightarrow> Date
     \<Rightarrow> (js_string, Error) Result proc" where
  "createGreeting zmsg tza name lang date =
     (case NameSchema_safeParse name of
        ParseFailure e \<Rightarrow> Returns (Err (Error (zmsg e)))
      | ParseSuccess _ \<Rightarrow>
          (let timeOfDay = getTimeOfDay tza date in
           case match_exhaustive greetingBranches (lang, timeOfDay) of
             None \<Rightarrow> Throws (Error (str ''Pattern matching error: no pattern matches value''))
           | Some h \<Rightarrow> Returns (Ok (h name))))"

section \<open>effects.ts\<close>

text \<open>
  What the program does to the outside, in order: the prompts and notices it shows, the
  command it runs. The colours of \<open>picocolors\<close> are left out of the texts.
\<close>

datatype Event =
    Intro js_string
  | TextPrompt js_string
  | SelectPrompt js_string "(Language \<times> js_string) list"
  | ConsoleError js_string
  | SpinnerStart js_string
  | SetTimeout nat
  | Execa js_string "js_string list"
  | SpinnerSucceed js_string
  | SpinnerWarn js_string
  | Outro js_string

text \<open>
  An effectful computation: the events it produced and how it ended. \<open>seq m f\<close> is
  \<open>m\<close> followed by \<open>f\<close> on its value; a throw or a \<open>process.exit\<close> in \<open>m\<close> skips \<open>f\<close>.
\<close>

type_synonym 'a io = "Event list \<times> 'a proc"

definition seq :: "'a io \<Rightarrow> ('a \<Rightarrow> 'b io) \<Rightarrow> 'b io" where
  "seq m f =
     (case m of
        (es, Returns a) \<Rightarrow> (case f a of (es', r) \<Rightarrow> (es @ es', r))
      | (es, Throws e) \<Rightarrow> (es, Throws e)
      | (es, Exits c) \<Rightarrow> (es, Exits c))"

text \<open>
  The promise of \<open>execa('echo', ...)\<close> resolves, or rejects with a reason \<open>e\<close>, kept as the
  text \<open>`${e}`\<close>.
\<close>

datatype execa_result = Resolved | Rejected js_string

text \<open>
  \<open>logToSystem\<close>: \<open>ResultAsync.fromPromise(execa('echo', [`[LOG]: ${message}`]), e => new
  Error(`Failed to log: ${e}`)).map(() => undefined)\<close>.
\<close>

definition logToSystem :: "execa_result \<Rightarrow> js_string \<Rightarrow> (unit, Error) Result io" where
  "logToSystem outcome message =
     ([Execa (str ''echo'') [str ''[LOG]: '' @ message]],
      Returns (case outcome of
                 Resolved \<Rightarrow> Ok ()
               | Rejected e \<Rightarrow> Err (Error (str ''Failed to log: '' @ e))))"

section \<open>index.ts\<close>

subsection \<open>The language decoder\<close>

text \<open>\<open>xs.join(sep)\<close>.\<close>

fun join :: "js_string \<Rightarrow> js_string list \<Rightarrow> js_string" where
  "join sep [] = []"
| "join sep [x] = x"
| "join sep (x # y # ys) = x @ sep @ join sep (y # ys)"

text \<open>
  \<open>LanguageType.from\<close>, an async function: it returns the parsed language, or throws the
  error with the message \<open>`Invalid language: ${str}. Allowed: ${Object.values(LANGUAGE).join(', ')}`\<close>.
\<close>

definition LanguageType_from :: "js_string \<Rightarrow> Language proc" where
  "LanguageType_from s =
     (case LanguageSchema_safeParse s of
        ParseFailure e \<Rightarrow>
          Throws (Error (str ''Invalid language: '' @ s @ str ''. Allowed: ''
                           @ join (str '', '') LANGUAGE_values))
      | ParseSuccess d \<Rightarrow> Returns d)"

subsection \<open>The interactive helpers\<close>

text \<open>
  A prompt of \<open>@clack/prompts\<close> resolves to the value the user gave or to the cancel
  symbol (\<open>isCancel\<close>). The text prompt returns only a text its \<open>validate\<close> callback
  accepted.
\<close>

datatype 'a prompt = Value 'a | Cancel

definition validateName :: "js_string \<Rightarrow> js_string option" where
  "validateName v = (if length v = 0 then Some (str ''Name is required!'') else None)"

definition askName :: "js_string prompt \<Rightarrow> js_string io" where
  "askName answer =
     seq ([TextPrompt (str ''What is your name?'')], Returns answer)
       (\<lambda>name. case name of
                  Cancel \<Rightarrow> ([], Exits 0)
                | Value v \<Rightarrow> ([], Returns v))"

definition askLanguage :: "Language prompt \<Rightarrow> Language io" where
  "askLanguage answer =
     seq ([SelectPrompt (str ''Choose a language:'')
             [(EN, str ''English''),
              (JA, [0x65E5, 0x672C, 0x8A9E]),
              (ES, str ''Espa'' @ [0xF1] @ str ''ol'')]], Returns answer)
       (\<lambda>lang. case lang of
                  Cancel \<Rightarrow> ([], Exits 0)
                | Value l \<Rightarrow> ([], Returns l))"

subsection \<open>The command handler\<close>

text \<open>
  What the outside gives to one run: the answers of the two prompts (read only when the
  prompt is shown), the time value of \<open>new Date()\<close>, and the outcome of the \<open>execa\<close> call.
\<close>

record World =
  text_answer :: "js_string prompt"
  select_answer :: "Language prompt"
  now :: int
  execa_outcome :: execa_result

fun Error_message :: "Error \<Rightarrow> js_string" where
  "Error_message (Error m) = m"

text \<open>
  \<open>handler({ nameArg, langArg })\<close>; \<open>langArg\<close> is \<open>undefined\<close> (\<open>None\<close>) when \<open>--lang\<close> is
  absent. \<open>!finalName\<close> holds of a string exactly when it is empty.
\<close>

definition handler ::
  "(ZodError \<Rightarrow> js_string) \<Rightarrow> (int \<Rightarrow> int) \<Rightarrow> World \<Rightarrow> js_string \<Rightarrow> Language option
     \<Rightarrow> unit io" where
  "handler zmsg tza w nameArg langArg =
     seq (case langArg of
            None \<Rightarrow>
              seq ([Intro (str '' '' @ APP_NAME @ str '' '')], Returns ()) (\<lambda>_.
              seq (if nameArg = [] then askName (text_answer w) else ([], Returns nameArg))
                (\<lambda>finalName.
              seq (askLanguage (select_answer w)) (\<lambda>finalLang.
                ([], Returns (finalName, finalLang)))))
          | Some l \<Rightarrow> ([], Returns (nameArg, l)))
       (\<lambda>(finalName, finalLang).
     seq ([], createGreeting zmsg tza finalName finalLang (Date (now w))) (\<lambda>result.
       case result of
         Err e \<Rightarrow> ([ConsoleError (str ''Error: '' @ Error_message e)], Exits 1)
       | Ok message \<Rightarrow>
           seq ([SpinnerStart (str ''Processing greeting...''), SetTimeout 800], Returns ())
             (\<lambda>_.
           seq (logToSystem (execa_outcome w) message) (\<lambda>logResult.
           seq ([if isOk logResult then SpinnerSucceed (str ''System log updated.'')
                 else SpinnerWarn (str ''Failed to update system log, but continuing.'')],
                Returns ()) (\<lambda>_.
             ([Outro message], Returns ()))))))"

subsection \<open>The entry point\<close>

text \<open>
  The exit status of the process that ran the handler: the code given to
  \<open>process.exit\<close>; 0 when the handler returns and nothing is left to run; 1 when it
  threw, whether the \<open>catch\<close> of the entry point (\<open>process.exit(1)\<close>) or the host's handling
  of a rejected promise ends the process.
\<close>

fun processExitCode :: "'a proc \<Rightarrow> int" where
  "processExitCode (Returns v) = 0"
| "processExitCode (Throws e) = 1"
| "processExitCode (Exits c) = c"

subsection \<open>Hosts used in the examples\<close>

text \<open>A host in UTC, and a rendering of a \<open>ZodError\<close> as the texts of its issues.\<close>

definition utc :: "int \<Rightarrow> int" where
  "utc t = 0"

fun issueMessages :: "ZodError \<Rightarrow> js_string" where
  "issueMessages (ZodError ms) = join (str ''; '') ms"

section \<open>The greeting engine\<close>

lemma classifyHour_Some:
  "classifyHour (Some h) = (if h < 12 then morning else if h < 18 then day else evening)"
  by (simp add: classifyHour_def)

lemma getHours_range:
  "getHours tza (Date t) = Some h \<Longrightarrow> 0 \<le> h \<and> h \<le> 23"
  by (auto simp: msPerHour_def)

lemma sublist_ConsI:
  "sublist xs ys \<Longrightarrow> sublist xs (y # ys)"
  by (simp add: sublist_Cons_right)

lemma match_greetingBranches:
  "\<exists>h. match_exhaustive greetingBranches (lang, tod) = Some h
     \<and> (\<forall>name. sublist name (h name) \<and> h name \<noteq> [])"
  by (cases lang; cases tod)
    (auto simp: greetingBranches_def san_def str_def intro!: sublist_ConsI)

lemma createGreeting_nonempty:
  assumes "name \<noteq> []"
  shows "\<exists>msg. createGreeting zmsg tza name lang date = Returns (Ok msg)
           \<and> sublist name msg \<and> msg \<noteq> []"
proof -
  obtain h where h: "match_exhaustive greetingBranches (lang, getTimeOfDay tza date) = Some h"
    and shape: "\<forall>n. sublist n (h n) \<and> h n \<noteq> []"
    using match_greetingBranches by blast
  from assms have "NameSchema_safeParse name = ParseSuccess name"
    by (cases name) (simp_all add: NameSchema_safeParse_def)
  with h have "createGreeting zmsg tza name lang date = Returns (Ok (h name))"
    by (simp add: createGreeting_def)
  with shape show ?thesis
    by blast
qed

lemma createGreeting_empty:
  "createGreeting zmsg tza [] lang date =
     Returns (Err (Error (zmsg (ZodError [str ''Name cannot be empty'']))))"
  by (simp add: createGreeting_def NameSchema_safeParse_def)

lemma createGreeting_total:
  "(\<exists>msg. createGreeting zmsg tza name lang date = Returns (Ok msg))
     \<or> (\<exists>e. createGreeting zmsg tza name lang date = Returns (Err e))"
proof (cases "name = []")
  case True
  then show ?thesis
    by (simp add: createGreeting_empty)
next
  case False
  from createGreeting_nonempty [OF False] show ?thesis
    by blast
qed

lemma createGreeting_not_Throws:
  "createGreeting zmsg tza name lang date \<noteq> Throws x"
  using createGreeting_total [of zmsg tza name lang date] by auto

lemma createGreeting_not_Exits:
  "createGreeting zmsg tza name lang date \<noteq> Exits c"
  using createGreeting_total [of zmsg tza name lang date] by auto

text \<open>
  C1. For an hour of day \<open>h\<close> between 0 and 23, \<open>getTimeOfDay\<close> of any timestamp whose hour
  is \<open>h\<close> is \<open>morning\<close> when \<open>h < 12\<close>, \<open>day\<close> when \<open>12 \<le> h < 18\<close> and \<open>evening\<close> when
  \<open>18 \<le> h\<close>.
\<close>

theorem getTimeOfDay_thresholds:
  assumes "getHours tza date = Some h" and "0 \<le> h" and "h \<le> 23"
  shows "(h < 12 \<longrightarrow> getTimeOfDay tza date = morning)
       \<and> (12 \<le> h \<and> h < 18 \<longrightarrow> getTimeOfDay tza date = day)
       \<and> (18 \<le> h \<longrightarrow> getTimeOfDay tza date = evening)"
  using assms by (simp add: getTimeOfDay_def classifyHour_Some)

theorem getTimeOfDay_thresholds_witness:
  "getHours utc (Date 32400000) = Some 9
     \<and> getTimeOfDay utc (Date 32400000) = morning
     \<and> getHours utc (Date 46800000) = Some 13
     \<and> getTimeOfDay utc (Date 46800000) = day
     \<and> getHours utc (Date 82800000) = Some 23
     \<and> getTimeOfDay utc (Date 82800000) = evening"
proof -
  have a: "getHours utc (Date 32400000) = Some 9"
    and b: "getHours utc (Date 46800000) = Some 13"
    and c: "getHours utc (Date 82800000) = Some 23"
    by (simp_all add: msPerHour_def utc_def)
  show ?thesis
    using a b c
      getTimeOfDay_thresholds [OF a] getTimeOfDay_thresholds [OF b]
      getTimeOfDay_thresholds [OF c]
    by simp
qed

text \<open>
  C2. For a non-empty name, every language and every timestamp, \<open>createGreeting\<close> returns
  a success whose message is non-empty and contains the name; all nine pairs of a
  language and a time of day have a branch.
\<close>

theorem createGreeting_success_contains_name:
  assumes "name \<noteq> []"
  shows "\<exists>msg. createGreeting zmsg tza name lang date = Returns (Ok msg)
           \<and> msg \<noteq> [] \<and> sublist name msg"
  using createGreeting_nonempty [OF assms] by blast

theorem createGreeting_success_contains_name_witness:
  "str ''Alice'' \<noteq> []
     \<and> (\<exists>msg. createGreeting issueMessages utc (str ''Alice'') ES (Date 32400000)
                 = Returns (Ok msg)
           \<and> msg \<noteq> [] \<and> sublist (str ''Alice'') msg)"
proof -
  have ne: "str ''Alice'' \<noteq> []"
    by (simp add: str_def)
  show ?thesis
    using ne createGreeting_success_contains_name [OF ne] by blast
qed

text \<open>
  C3. With the empty name \<open>createGreeting\<close> returns a failure, for every language and
  timestamp; for any inputs it returns a success or a failure, and neither throws nor
  ends the process.
\<close>

theorem createGreeting_empty_name_fails:
  "(\<exists>e. createGreeting zmsg tza [] lang date = Returns (Err e))
     \<and> ((\<exists>msg. createGreeting zmsg tza name' lang' date' = Returns (Ok msg))
        \<or> (\<exists>e. createGreeting zmsg tza name' lang' date' = Returns (Err e)))"
  using createGreeting_total [of zmsg tza name' lang' date']
  by (simp add: createGreeting_empty)

text \<open>
  C9. A name that is a single space passes the rule \<open>length \<ge> 1\<close>: \<open>createGreeting\<close> returns
  a success for every language and timestamp.
\<close>

theorem createGreeting_single_space_succeeds:
  "NameSchema_safeParse (str '' '') = ParseSuccess (str '' '')
     \<and> (\<exists>msg. createGreeting zmsg tza (str '' '') lang date = Returns (Ok msg))"
proof -
  have ne: "str '' '' \<noteq> []"
    by (simp add: str_def)
  from createGreeting_nonempty [OF ne] show ?thesis
    by (fastforce simp: NameSchema_safeParse_def str_def)
qed

text \<open>
  C10. \<open>createGreeting\<close> reads its timestamp only through the hour of day: two timestamps
  with the same hour give the same result, for every name and language.
\<close>

theorem createGreeting_depends_on_hour_only:
  assumes "getHours tza t1 = getHours tza t2"
  shows "createGreeting zmsg tza name lang t1 = createGreeting zmsg tza name lang t2"
  using assms by (simp add: createGreeting_def getTimeOfDay_def split: SafeParse.splits)

theorem createGreeting_depends_on_hour_only_witness:
  "getHours utc (Date 32400000) = getHours utc (Date 121919000)
     \<and> createGreeting issueMessages utc (str ''Bob'') JA (Date 32400000)
         = createGreeting issueMessages utc (str ''Bob'') JA (Date 121919000)"
proof -
  have h: "getHours utc (Date 32400000) = getHours utc (Date 121919000)"
    by (simp add: msPerHour_def utc_def)
  show ?thesis
    using h createGreeting_depends_on_hour_only [OF h] by blast
qed

section \<open>The language decoder\<close>

lemma LanguageSchema_safeParse_success:
  "LanguageSchema_safeParse s = ParseSuccess l \<longleftrightarrow> s = Language_value l"
  by (cases l)
    (auto simp: LanguageSchema_safeParse_def LANGUAGE_keys_def str_def split: if_splits)

lemma allowed_text:
  "join (str '', '') LANGUAGE_values = str ''en, ja, es''"
  by (simp add: LANGUAGE_values_def LANGUAGE_keys_def str_def)

lemma LanguageType_from_Returns:
  "LanguageType_from s = Returns l \<longleftrightarrow> s = Language_value l"
  using LanguageSchema_safeParse_success [of s l]
  by (auto simp: LanguageType_from_def split: SafeParse.splits)

lemma LanguageType_from_Throws:
  assumes "\<forall>l. s \<noteq> Language_value l"
  shows "LanguageType_from s =
           Throws (Error (str ''Invalid language: '' @ s @ str ''. Allowed: en, ja, es''))"
proof (cases "LanguageSchema_safeParse s")
  case (ParseSuccess l)
  with assms show ?thesis
    by (simp add: LanguageSchema_safeParse_success)
next
  case (ParseFailure e)
  have "str ''. Allowed: '' @ str ''en, ja, es'' = str ''. Allowed: en, ja, es''"
    by (simp add: str_def)
  with ParseFailure show ?thesis
    by (simp add: LanguageType_from_def allowed_text)
qed

lemma Language_values_set:
  "(\<exists>l. s = Language_value l) \<longleftrightarrow> s \<in> {str ''en'', str ''ja'', str ''es''}"
proof
  assume "\<exists>l. s = Language_value l"
  then obtain l where "s = Language_value l" ..
  then show "s \<in> {str ''en'', str ''ja'', str ''es''}"
    by (cases l) simp_all
next
  assume "s \<in> {str ''en'', str ''ja'', str ''es''}"
  then consider "s = Language_value EN" | "s = Language_value JA" | "s = Language_value ES"
    by auto
  then show "\<exists>l. s = Language_value l"
    by cases blast+
qed

text \<open>
  C5. The language decoder succeeds exactly on \<open>en\<close>, \<open>ja\<close> and \<open>es\<close>, compared case by
  case; on any other input it fails, with a message that lists the allowed values
  \<open>en, ja, es\<close>.
\<close>

theorem LanguageType_from_accepts:
  "((\<exists>l. LanguageType_from s = Returns l) \<longleftrightarrow> s \<in> {str ''en'', str ''ja'', str ''es''})
     \<and> LanguageType_from (str ''en'') = Returns EN
     \<and> LanguageType_from (str ''ja'') = Returns JA
     \<and> LanguageType_from (str ''es'') = Returns ES
     \<and> (s \<notin> {str ''en'', str ''ja'', str ''es''} \<longrightarrow>
          (\<exists>m. LanguageType_from s = Throws (Error m) \<and> sublist (str ''en, ja, es'') m))"
proof (intro conjI impI)
  show "(\<exists>l. LanguageType_from s = Returns l) \<longleftrightarrow> s \<in> {str ''en'', str ''ja'', str ''es''}"
    by (simp only: LanguageType_from_Returns Language_values_set)
  show "LanguageType_from (str ''en'') = Returns EN"
    by (simp add: LanguageType_from_Returns)
  show "LanguageType_from (str ''ja'') = Returns JA"
    by (simp add: LanguageType_from_Returns)
  show "LanguageType_from (str ''es'') = Returns ES"
    by (simp add: LanguageType_from_Returns)
next
  assume "s \<notin> {str ''en'', str ''ja'', str ''es''}"
  then have "\<forall>l. s \<noteq> Language_value l"
    using Language_values_set [of s] by blast
  then have t: "LanguageType_from s =
      Throws (Error (str ''Invalid language: '' @ s @ str ''. Allowed: en, ja, es''))"
    by (rule LanguageType_from_Throws)
  have "str ''. Allowed: en, ja, es'' = str ''. Allowed: '' @ str ''en, ja, es''"
    by (simp add: str_def)
  then have "sublist (str ''en, ja, es'')
      (str ''Invalid language: '' @ s @ str ''. Allowed: en, ja, es'')"
    by (metis append.assoc sublist_append_leftI)
  with t show "\<exists>m. LanguageType_from s = Throws (Error m) \<and> sublist (str ''en, ja, es'') m"
    by blast
qed

theorem LanguageType_from_accepts_witness:
  "str ''fr'' \<notin> {str ''en'', str ''ja'', str ''es''}
     \<and> (\<exists>m. LanguageType_from (str ''fr'') = Throws (Error m)
            \<and> sublist (str ''en, ja, es'') m)
     \<and> str ''EN'' \<notin> {str ''en'', str ''ja'', str ''es''}
     \<and> \<not> (\<exists>l. LanguageType_from (str ''EN'') = Returns l)"
proof -
  have fr: "str ''fr'' \<notin> {str ''en'', str ''ja'', str ''es''}"
    and up: "str ''EN'' \<notin> {str ''en'', str ''ja'', str ''es''}"
    by (simp_all add: str_def)
  show ?thesis
    using fr up LanguageType_from_accepts [of "str ''fr''"]
      LanguageType_from_accepts [of "str ''EN''"]
    by blast
qed

text \<open>
  C6, as the claim states it: a decode error is a failure value in the decoder's return
  channel, never an exception. On \<open>fr\<close> the decoder throws.
\<close>

theorem LanguageType_from_throws_counterexample:
  "LanguageType_from (str ''fr'') =
     Throws (Error (str ''Invalid language: fr. Allowed: en, ja, es''))"
  by (simp add: LanguageType_from_def LanguageSchema_safeParse_def LANGUAGE_keys_def
      LANGUAGE_values_def str_def)

text \<open>
  C6, amended. For every input the language decoder never ends the process. When the
  input is one of \<open>en\<close>, \<open>ja\<close>, \<open>es\<close> it returns that language. On every other input it
  reports the decode error by throwing an \<open>Error\<close> with the message
  \<open>Invalid language: <input>. Allowed: en, ja, es\<close>, not by returning a failure value.
\<close>

theorem LanguageType_from_failure_channel:
  "(\<forall>c. LanguageType_from s \<noteq> Exits c)
     \<and> LanguageType_from (Language_value l) = Returns l
     \<and> (s \<in> {str ''en'', str ''ja'', str ''es''} \<longrightarrow>
          (\<exists>l'. s = Language_value l' \<and> LanguageType_from s = Returns l'))
     \<and> (s \<notin> {str ''en'', str ''ja'', str ''es''} \<longrightarrow>
          LanguageType_from s =
            Throws (Error (str ''Invalid language: '' @ s @ str ''. Allowed: en, ja, es''))
          \<and> (\<forall>r. LanguageType_from s \<noteq> Returns r))"
proof (intro conjI impI allI)
  fix c
  show "LanguageType_from s \<noteq> Exits c"
    by (simp add: LanguageType_from_def split: SafeParse.splits)
next
  show "LanguageType_from (Language_value l) = Returns l"
    by (simp add: LanguageType_from_Returns)
next
  assume "s \<in> {str ''en'', str ''ja'', str ''es''}"
  then obtain l' where "s = Language_value l'"
    using Language_values_set [of s] by blast
  then show "\<exists>l'. s = Language_value l' \<and> LanguageType_from s = Returns l'"
    by (auto simp: LanguageType_from_Returns)
next
  assume out: "s \<notin> {str ''en'', str ''ja'', str ''es''}"
  then have "\<forall>l. s \<noteq> Language_value l"
    using Language_values_set [of s] by blast
  then show "LanguageType_from s =
      Throws (Error (str ''Invalid language: '' @ s @ str ''. Allowed: en, ja, es''))"
    by (rule LanguageType_from_Throws)
  then show "LanguageType_from s \<noteq> Returns r" for r
    by simp
qed

theorem LanguageType_from_failure_channel_witness:
  "str ''de'' \<notin> {str ''en'', str ''ja'', str ''es''}
     \<and> LanguageType_from (str ''de'') =
          Throws (Error (str ''Invalid language: de. Allowed: en, ja, es''))
     \<and> (\<forall>c. LanguageType_from (str ''de'') \<noteq> Exits c)
     \<and> str ''en'' \<in> {str ''en'', str ''ja'', str ''es''}
     \<and> LanguageType_from (str ''en'') = Returns EN
     \<and> (\<forall>c. LanguageType_from (str ''en'') \<noteq> Exits c)"
proof -
  have out: "str ''de'' \<notin> {str ''en'', str ''ja'', str ''es''}"
    by (simp add: str_def)
  have inn: "str ''en'' \<in> {str ''en'', str ''ja'', str ''es''}"
    by simp
  have eq: "str ''Invalid language: '' @ str ''de'' @ str ''. Allowed: en, ja, es''
      = str ''Invalid language: de. Allowed: en, ja, es''"
    by (simp add: str_def)
  have en: "Language_value EN = str ''en''"
    by simp
  show ?thesis
    using out inn eq en LanguageType_from_failure_channel [of "str ''de''" EN]
      LanguageType_from_failure_channel [of "str ''en''" EN]
    by simp
qed

section \<open>The handler and the exit status\<close>

lemmas handler_defs = handler_def seq_def askName_def askLanguage_def logToSystem_def

lemma validateName_accepts:
  "validateName v = None \<longleftrightarrow> v \<noteq> []"
  by (simp add: validateName_def)

text \<open>
  C4. The claim: a cancellation at either prompt and a surfaced validation failure end
  the run with exit code 2. The code, at these inputs: a cancellation at the name prompt
  and at the language prompt both end it with 0, an empty name with \<open>--lang\<close> given ends it
  with 1.
\<close>

theorem handler_user_error_exit_codes:
  "processExitCode (snd (handler zmsg tza
       \<lparr>text_answer = Cancel, select_answer = sa, now = t, execa_outcome = x\<rparr> [] None)) = 0
     \<and> processExitCode (snd (handler zmsg tza
       \<lparr>text_answer = ta, select_answer = Cancel, now = t, execa_outcome = x\<rparr>
         (str ''Alice'') None)) = 0
     \<and> processExitCode (snd (handler zmsg tza w [] (Some lang))) = 1"
  by (simp add: handler_defs createGreeting_empty str_def)

text \<open>
  C7. The claim: neither prompt helper nor the handler ever ends the process. The code:
  \<open>askName\<close> and \<open>askLanguage\<close> call \<open>process.exit(0)\<close> on a cancellation, and the handler
  calls \<open>process.exit(1)\<close> when \<open>createGreeting\<close> fails.
\<close>

theorem helpers_terminate_process:
  "snd (askName Cancel) = Exits 0
     \<and> snd (askLanguage Cancel) = Exits 0
     \<and> snd (handler zmsg tza w [] (Some lang)) = Exits 1"
  by (simp add: handler_defs createGreeting_empty)

text \<open>
  C8. When the logging action fails after the greeting was computed (the handler reached
  the logging action with the message \<open>m\<close>), the failure shows only as the warning of the
  spinner: the greeting is still put out last, no error is printed, the handler returns,
  the exit code is 0, and the handler ends as it does when the logging succeeds.
\<close>

theorem logging_failure_is_warning_only:
  assumes "execa_outcome w = Rejected e"
    and "Execa (str ''echo'') [str ''[LOG]: '' @ m]
           \<in> set (fst (handler zmsg tza w nameArg langArg))"
  shows "(\<exists>pre. fst (handler zmsg tza w nameArg langArg) =
            pre @ [Execa (str ''echo'') [str ''[LOG]: '' @ m],
                   SpinnerWarn (str ''Failed to update system log, but continuing.''),
                   Outro m])
       \<and> (\<forall>t. ConsoleError t \<notin> set (fst (handler zmsg tza w nameArg langArg)))
       \<and> snd (handler zmsg tza w nameArg langArg) = Returns ()
       \<and> processExitCode (snd (handler zmsg tza w nameArg langArg)) = 0
       \<and> snd (handler zmsg tza (w\<lparr>execa_outcome := Resolved\<rparr>) nameArg langArg)
           = snd (handler zmsg tza w nameArg langArg)"
  using assms
  by (cases langArg; cases "text_answer w"; cases "select_answer w"; cases "nameArg = []")
    (auto simp: handler_defs createGreeting_not_Exits createGreeting_not_Throws
      split: prod.splits proc.splits Result.splits)

theorem logging_failure_is_warning_only_witness:
  "execa_outcome \<lparr>text_answer = Cancel, select_answer = Cancel, now = 32400000,
        execa_outcome = Rejected (str ''ENOENT'')\<rparr> = Rejected (str ''ENOENT'')
   \<and> Execa (str ''echo'') [str ''[LOG]: '' @ str ''Good morning, Alice!'']
       \<in> set (fst (handler issueMessages utc
            \<lparr>text_answer = Cancel, select_answer = Cancel, now = 32400000,
             execa_outcome = Rejected (str ''ENOENT'')\<rparr> (str ''Alice'') (Some EN)))
   \<and> processExitCode (snd (handler issueMessages utc
            \<lparr>text_answer = Cancel, select_answer = Cancel, now = 32400000,
             execa_outcome = Rejected (str ''ENOENT'')\<rparr> (str ''Alice'') (Some EN))) = 0"
proof -
  let ?w = "\<lparr>text_answer = Cancel, select_answer = Cancel, now = 32400000,
        execa_outcome = Rejected (str ''ENOENT'')\<rparr>"
  have a: "execa_outcome ?w = Rejected (str ''ENOENT'')"
    by simp
  have b: "Execa (str ''echo'') [str ''[LOG]: '' @ str ''Good morning, Alice!'']
       \<in> set (fst (handler issueMessages utc ?w (str ''Alice'') (Some EN)))"
    by (simp add: handler_defs createGreeting_def NameSchema_safeParse_def getTimeOfDay_def
      classifyHour_def msPerHour_def utc_def greetingBranches_def str_def)
  show ?thesis
    using a b logging_failure_is_warning_only [OF a b] by blast
qed

end
